theory Spec2Isabelle
  imports Complex_Main
begin

section \<open>Numbers, errors and strings\<close>

text \<open>
  The module \<open>cosmo_utils/utils/stats_funcs.py\<close> computes with Python floats and numpy
  arrays of doubles. A finite double is modelled by the real number it stands for, with exact
  arithmetic: rounding and the infinities are outside the model. The not-a-number value is
  modelled where the code treats it specially (the nan-aware reductions and the default
  \<open>failval\<close>): a \<open>float\<close> is either a finite value or \<open>NaN\<close>.
\<close>

datatype float = Fin real | NaN

text \<open>Every \<open>raise\<close> of the module and every exception of the interpreter it can run into.\<close>

datatype error =
    LSSUtils_Error string
  | NameError string
  | ZeroDivisionError
  | ValueError
  | TypeError
  | AttributeError
  | AxisError
  | KeyError
  | IndexError

text \<open>\<open>str.format\<close> of a non-negative and of an arbitrary Python integer.\<close>

fun str_nat :: "nat \<Rightarrow> string" where
  "str_nat n =
     (if n < 10 then [''0123456789'' ! n]
      else str_nat (n div 10) @ [''0123456789'' ! (n mod 10)])"

declare str_nat.simps [simp del]

definition str_int :: "int \<Rightarrow> string" where
  "str_int i = (if i < 0 then ''-'' @ str_nat (nat (- i)) else str_nat (nat i))"

section \<open>RoundingOps: \<open>myceil\<close> and \<open>myfloor\<close>\<close>

text \<open>
  \<^verbatim>\<open>y = float(base * math.ceil(float(x)/base))\<close>: the division of two Python floats raises
  \<open>ZeroDivisionError\<close> when the divisor is zero.
\<close>

definition myceil :: "real \<Rightarrow> real \<Rightarrow> error + real" where
  "myceil x base =
     (if base = 0 then Inl ZeroDivisionError
      else Inr (base * of_int \<lceil>x / base\<rceil>))"

definition myfloor :: "real \<Rightarrow> real \<Rightarrow> error + real" where
  "myfloor x base =
     (if base = 0 then Inl ZeroDivisionError
      else Inr (base * of_int \<lfloor>x / base\<rfloor>))"

section \<open>BinEdgeBuilder: \<open>Bins_array_create\<close>\<close>

text \<open>
  A numpy array after \<open>np.asarray\<close>: its shape and its elements in row-major order; \<open>ndim\<close>
  is the number of axes.
\<close>

record 'a ndarray =
  shape :: "nat list"
  elems :: "'a list"

definition ndim :: "'a ndarray \<Rightarrow> nat" where
  "ndim a = length (shape a)"

text \<open>A one-dimensional array holding the given elements.\<close>

definition array1 :: "'a list \<Rightarrow> 'a ndarray" where
  "array1 xs = \<lparr>shape = [length xs], elems = xs\<rparr>"

text \<open>
  \<open>np.arange(start, stop, step)\<close>: the \<open>ceil((stop - start) / step)\<close> values
  \<open>start + i * step\<close> (none when that count is not positive); a zero step is refused.
\<close>

definition np_arange :: "real \<Rightarrow> real \<Rightarrow> real \<Rightarrow> error + real list" where
  "np_arange start stop step =
     (if step = 0 then Inl ZeroDivisionError
      else Inr (map (\<lambda>i. start + real i * step)
                  [0 ..< nat \<lceil>(stop - start) / step\<rceil>]))"

text \<open>
  \<open>Bins_array_create(arr, base)\<close>. \<open>file_msg\<close> is the result of \<open>fd.Program_Msg(__file__)\<close>,
  a helper of the package that only formats the message prefix; it is a parameter here.
  \<open>arr.min()\<close> of an array without elements raises \<open>ValueError\<close>.
\<close>

definition Bins_array_create :: "string \<Rightarrow> real ndarray \<Rightarrow> real \<Rightarrow> error + real list" where
  "Bins_array_create file_msg arr base =
     (if ndim arr \<noteq> 1 then
        Inl (LSSUtils_Error
          (file_msg @ '' The input array is not of dimension 1, but of `''
             @ str_nat (ndim arr) @ ''`''))
      else if elems arr = [] then Inl ValueError
      else
        (case myfloor (Min (set (elems arr))) base of
           Inl e \<Rightarrow> Inl e
         | Inr arr_min \<Rightarrow>
            (case myceil (Max (set (elems arr))) base of
               Inl e \<Rightarrow> Inl e
             | Inr arr_max \<Rightarrow> np_arange arr_min (arr_max + 0.5 * base) base)))"

section \<open>Float arithmetic and the nan-aware reductions of numpy\<close>

text \<open>Arithmetic and comparison of doubles: \<open>NaN\<close> propagates and compares unequal to everything.\<close>

fun fadd :: "float \<Rightarrow> float \<Rightarrow> float" where
  "fadd (Fin a) (Fin b) = Fin (a + b)"
| "fadd _ _ = NaN"

fun fsub :: "float \<Rightarrow> float \<Rightarrow> float" where
  "fsub (Fin a) (Fin b) = Fin (a - b)"
| "fsub _ _ = NaN"

fun fmul :: "float \<Rightarrow> float \<Rightarrow> float" where
  "fmul (Fin a) (Fin b) = Fin (a * b)"
| "fmul _ _ = NaN"

text \<open>
  Division is only used on the standard deviation of a bin and the square root of its
  occupancy; a zero divisor meets a \<open>NaN\<close> dividend there (the deviation of no values).
\<close>

fun fdiv :: "float \<Rightarrow> float \<Rightarrow> float" where
  "fdiv (Fin a) (Fin b) = (if b = 0 then NaN else Fin (a / b))"
| "fdiv _ _ = NaN"


fun fne :: "float \<Rightarrow> float \<Rightarrow> bool" where
  "fne (Fin a) (Fin b) = (a \<noteq> b)"
| "fne _ _ = True"

text \<open>The entries of a sequence that are numbers, in order.\<close>

fun valid_entries :: "float list \<Rightarrow> real list" where
  "valid_entries [] = []"
| "valid_entries (Fin v # xs) = v # valid_entries xs"
| "valid_entries (NaN # xs) = valid_entries xs"

text \<open>
  \<open>np.nanmean\<close>, \<open>np.nanstd\<close> (population deviation, \<open>ddof = 0\<close>) and \<open>np.nanmedian\<close> of a
  one-dimensional slice: computed on the valid entries, \<open>NaN\<close> (with a warning, no exception)
  when there is none.
\<close>

definition mean :: "real list \<Rightarrow> real" where
  "mean vs = sum_list vs / real (length vs)"

definition nanmean :: "float list \<Rightarrow> float" where
  "nanmean xs = (let vs = valid_entries xs in if vs = [] then NaN else Fin (mean vs))"

definition nanstd :: "float list \<Rightarrow> float" where
  "nanstd xs =
     (let vs = valid_entries xs in
      if vs = [] then NaN
      else Fin (sqrt (mean (map (\<lambda>v. (v - mean vs)\<^sup>2) vs))))"

definition nanmedian :: "float list \<Rightarrow> float" where
  "nanmedian xs =
     (let vs = sort (valid_entries xs); n = length vs in
      if n = 0 then NaN
      else if odd n then Fin (vs ! (n div 2))
      else Fin ((vs ! (n div 2 - 1) + vs ! (n div 2)) / 2))"

section \<open>SigmaEstimator: \<open>sigma_calcs\<close>\<close>

text \<open>Sequencing of computations that may raise.\<close>

fun bind_err :: "error + 'a \<Rightarrow> ('a \<Rightarrow> error + 'b) \<Rightarrow> error + 'b" where
  "bind_err (Inl e) f = Inl e"
| "bind_err (Inr v) f = f v"

text \<open>
  The data of \<open>sigma_calcs\<close>: a one-dimensional array, or a two-dimensional one given by its
  rows (shape \<open>(nrpbins, itern_tot)\<close> in the docstring).
\<close>

datatype data_arr = Arr1 "float list" | Arr2 "float list list"

fun data_ndim :: "data_arr \<Rightarrow> nat" where
  "data_ndim (Arr1 xs) = 1"
| "data_ndim (Arr2 rows) = 2"

text \<open>The result of reducing along one axis: a zero-dimensional or a one-dimensional array.\<close>

datatype reduced = Scalar float | Vector "float list"

text \<open>
  \<open>f(data_arr, axis=axis)\<close> for a reduction \<open>f\<close> of slices: axis 0 of a one-dimensional array
  is all of it, axis 1 of a matrix is each row, axis 0 of a matrix is each column, and a
  one-dimensional array has no axis beyond 0.
\<close>

fun reduce_axis :: "(float list \<Rightarrow> float) \<Rightarrow> data_arr \<Rightarrow> nat \<Rightarrow> error + reduced" where
  "reduce_axis f (Arr1 xs) axis = (if axis = 0 then Inr (Scalar (f xs)) else Inl AxisError)"
| "reduce_axis f (Arr2 rows) axis =
     (if axis = 1 then Inr (Vector (map f rows))
      else if axis = 0 then Inr (Vector (map f (transpose rows)))
      else Inl AxisError)"

text \<open>Elementwise arithmetic on reduced arrays, a zero-dimensional operand being broadcast.\<close>

fun elementwise :: "(float \<Rightarrow> float \<Rightarrow> float) \<Rightarrow> reduced \<Rightarrow> reduced \<Rightarrow> reduced" where
  "elementwise f (Scalar a) (Scalar b) = Scalar (f a b)"
| "elementwise f (Scalar a) (Vector bs) = Vector (map (f a) bs)"
| "elementwise f (Vector as) (Scalar b) = Vector (map (\<lambda>a. f a b) as)"
| "elementwise f (Vector as) (Vector bs) = Vector (map2 f as bs)"

text \<open>
  \<open>np.column_stack((lower, upper)).T\<close>: each operand becomes a column, so the transpose has
  the row of the lower and the row of the upper values.
\<close>

fun as_column :: "reduced \<Rightarrow> float list" where
  "as_column (Scalar a) = [a]"
| "as_column (Vector as) = as"

definition column_stack_T :: "reduced \<Rightarrow> reduced \<Rightarrow> error + float list list" where
  "column_stack_T lower upper =
     (if length (as_column lower) = length (as_column upper)
      then Inr [as_column lower, as_column upper] else Inl ValueError)"

text \<open>
  A value stored in \<open>sigma_dict\<close>: the empty Python list it is initialised with, the
  two-row array of a band, or that array flattened.
\<close>

datatype band = EmptyList | Rows "float list list" | Flat "float list"

text \<open>The dictionary, in insertion order; \<open>d[k] = v\<close> and \<open>d[k]\<close>.\<close>

type_synonym sigma_dict = "(nat \<times> band) list"

fun dict_set :: "nat \<Rightarrow> 'v \<Rightarrow> (nat \<times> 'v) list \<Rightarrow> (nat \<times> 'v) list" where
  "dict_set k v [] = [(k, v)]"
| "dict_set k v ((k', v') # d) =
     (if k' = k then (k, v) # d else (k', v') # dict_set k v d)"

definition dict_get :: "(nat \<times> 'v) list \<Rightarrow> nat \<Rightarrow> error + 'v" where
  "dict_get d k = (case map_of d k of None \<Rightarrow> Inl KeyError | Some v \<Rightarrow> Inr v)"

text \<open>\<open>.flatten()\<close>: a method of arrays, which a Python list does not have.\<close>

fun flatten :: "band \<Rightarrow> error + band" where
  "flatten EmptyList = Inl AttributeError"
| "flatten (Rows rs) = Inr (Flat (concat rs))"
| "flatten (Flat xs) = Inr (Flat xs)"

text \<open>
  The three loops of \<open>sigma_calcs\<close> over the level indices. \<open>nanpercentile\<close> stands for
  \<open>np.nanpercentile(data_arr, q, axis=axis)\<close>, a function of numpy; it is a parameter of the
  model.
\<close>

fun perc_loop ::
  "(data_arr \<Rightarrow> real \<Rightarrow> nat \<Rightarrow> error + reduced) \<Rightarrow> data_arr \<Rightarrow> nat \<Rightarrow>
     (nat \<times> real) list \<Rightarrow> sigma_dict \<Rightarrow> error + sigma_dict" where
  "perc_loop nanpercentile data_arr axis [] sigma_dict = Inr sigma_dict"
| "perc_loop nanpercentile data_arr axis ((ii, perc_ii) # rest) sigma_dict =
     bind_err (nanpercentile data_arr (50 - perc_ii / 2) axis) (\<lambda>mark_lower.
     bind_err (nanpercentile data_arr (50 + perc_ii / 2) axis) (\<lambda>mark_upper.
     bind_err (column_stack_T mark_lower mark_upper) (\<lambda>stacked.
       perc_loop nanpercentile data_arr axis rest (dict_set ii (Rows stacked) sigma_dict))))"

fun std_loop :: "reduced \<Rightarrow> reduced \<Rightarrow> nat list \<Rightarrow> sigma_dict \<Rightarrow> error + sigma_dict" where
  "std_loop mean_val std_val [] sigma_dict = Inr sigma_dict"
| "std_loop mean_val std_val (ii # rest) sigma_dict =
     (let mark_lower = elementwise fsub mean_val
                         (elementwise fmul (Scalar (Fin (real (ii + 1)))) std_val);
          mark_upper = elementwise fadd mean_val
                         (elementwise fmul (Scalar (Fin (real (ii + 1)))) std_val)
      in bind_err (column_stack_T mark_lower mark_upper) (\<lambda>stacked.
           std_loop mean_val std_val rest (dict_set ii (Rows stacked) sigma_dict)))"

fun flatten_loop :: "nat list \<Rightarrow> sigma_dict \<Rightarrow> error + sigma_dict" where
  "flatten_loop [] sigma_dict = Inr sigma_dict"
| "flatten_loop (ii # rest) sigma_dict =
     bind_err (dict_get sigma_dict ii) (\<lambda>b.
     bind_err (flatten b) (\<lambda>flat.
       flatten_loop rest (dict_set ii flat sigma_dict)))"

datatype sigma_result =
    Sigma_dict sigma_dict
  | Sigma_dict_mean_std sigma_dict reduced reduced

definition sigma_calcs ::
  "(data_arr \<Rightarrow> real \<Rightarrow> nat \<Rightarrow> error + reduced) \<Rightarrow> data_arr \<Rightarrow> string \<Rightarrow> real list \<Rightarrow> bool
     \<Rightarrow> error + sigma_result" where
  "sigma_calcs nanpercentile data_arr type_sigma perc_arr return_mean_std =
     (let axis = (if data_ndim data_arr = 1 then 0 else 1);
          sigma_dict0 = fold (\<lambda>ii d. dict_set ii EmptyList d) [0 ..< length perc_arr] []
      in
      bind_err (if type_sigma = ''perc''
                then perc_loop nanpercentile data_arr axis
                       (zip [0 ..< length perc_arr] perc_arr) sigma_dict0
                else Inr sigma_dict0) (\<lambda>sigma_dict1.
      bind_err (if type_sigma = ''std''
                then bind_err (reduce_axis nanmean data_arr axis) (\<lambda>mean_val.
                     bind_err (reduce_axis nanstd data_arr axis) (\<lambda>std_val.
                       std_loop mean_val std_val [0 ..< length perc_arr] sigma_dict1))
                else Inr sigma_dict1) (\<lambda>sigma_dict2.
      bind_err (reduce_axis nanmean data_arr axis) (\<lambda>mark_mean.
      bind_err (reduce_axis nanstd data_arr axis) (\<lambda>mark_std.
      bind_err (if data_ndim data_arr = 1
                then flatten_loop [0 ..< length sigma_dict2] sigma_dict2
                else Inr sigma_dict2) (\<lambda>sigma_dict3.
        if return_mean_std then Inr (Sigma_dict_mean_std sigma_dict3 mark_mean mark_std)
        else Inr (Sigma_dict sigma_dict3)))))))"

section \<open>BinnedStatistics: \<open>Stats_one_arr\<close>\<close>

subsection \<open>Names the function can resolve\<close>

text \<open>
  A name that is neither a parameter nor assigned in the function body is looked up in the
  module's global namespace and then among the builtins; \<open>NameError\<close> is raised when both
  fail. The module binds the names below (the names every module has, its imports, its
  dunder assignments and its five functions), each to a module, function or class, to a list
  of strings, to a string or to \<open>None\<close>; of the builtins, those the module uses are listed,
  and none of the others is called \<open>x1\<close> or \<open>return_perc\<close>.
\<close>

datatype global_kind = Object | Strings | Text | NoneValue

definition module_globals :: "(string \<times> global_kind) list" where
  "module_globals =
     [(''__name__'', Text), (''__doc__'', NoneValue), (''__file__'', Text),
      (''__package__'', Text), (''__builtins__'', Object),
      (''print_function'', Object), (''division'', Object), (''absolute_import'', Object),
      (''__author__'', Strings), (''__copyright__'', Strings), (''__email__'', Strings),
      (''__maintainer__'', Strings), (''__all__'', Strings),
      (''math'', Object), (''np'', Object), (''fd'', Object), (''LSSUtils_Error'', Object),
      (''myceil'', Object), (''myfloor'', Object), (''Bins_array_create'', Object),
      (''sigma_calcs'', Object), (''Stats_one_arr'', Object)]"

definition builtin_names :: "string list" where
  "builtin_names = [''len'', ''int'', ''float'', ''range'', ''enumerate'']"

definition load_global :: "string \<Rightarrow> error + global_kind" where
  "load_global name =
     (case map_of module_globals name of
        Some v \<Rightarrow> Inr v
      | None \<Rightarrow> if name \<in> set builtin_names then Inr Object else Inl (NameError name))"

subsection \<open>The statements of the body\<close>

text \<open>
  The reducer \<open>statfunc\<close> is \<open>numpy.nanmean\<close> or \<open>numpy.nanmedian\<close> (docstring); the body
  compares it with \<open>np.nanmedian\<close>.
\<close>

datatype statfunc = Nanmean | Nanmedian

fun apply_statfunc :: "statfunc \<Rightarrow> float list \<Rightarrow> float" where
  "apply_statfunc Nanmean xs = nanmean xs"
| "apply_statfunc Nanmedian xs = nanmedian xs"

text \<open>A list comprehension whose element expression may raise.\<close>

fun map_err :: "('a \<Rightarrow> error + 'b) \<Rightarrow> 'a list \<Rightarrow> error + 'b list" where
  "map_err f [] = Inr []"
| "map_err f (x # xs) = bind_err (f x) (\<lambda>v. bind_err (map_err f xs) (\<lambda>vs. Inr (v # vs)))"

text \<open>Line 305: \<^verbatim>\<open>arr_len = int(arr_len - 1.) if arr_len != 0 else int(arr_len)\<close>.\<close>

definition arr_len_threshold :: "int \<Rightarrow> int" where
  "arr_len_threshold arr_len = (if arr_len \<noteq> 0 then arr_len - 1 else arr_len)"

text \<open>
  \<open>np.digitize(x, bins)\<close>: for increasing bins the number of edges \<open>\<le> v\<close>
  (\<open>bins[i-1] <= v < bins[i]\<close>), for decreasing bins the number of edges \<open>> v\<close>
  (\<open>bins[i-1] > v >= bins[i]\<close>); bins that are neither are refused.
\<close>

definition digitize :: "real list \<Rightarrow> real list \<Rightarrow> error + nat list" where
  "digitize x bins =
     (if sorted bins then Inr (map (\<lambda>v. length (filter (\<lambda>e. e \<le> v) bins)) x)
      else if sorted (rev bins) then Inr (map (\<lambda>v. length (filter (\<lambda>e. v < e) bins)) x)
      else Inl ValueError)"

text \<open>\<open>a[x_digits == ii]\<close>: a boolean mask must be as long as the array it indexes.\<close>

definition mask_select :: "'a list \<Rightarrow> nat list \<Rightarrow> nat \<Rightarrow> error + 'a list" where
  "mask_select a x_digits ii =
     (if length a \<noteq> length x_digits then Inl IndexError
      else Inr (map fst (filter (\<lambda>p. snd p = ii) (zip a x_digits))))"

text \<open>
  Lines 313--319. An element of \<open>x_bins_data\<close> or \<open>y_bins_data\<close> is the subsequence of
  the bin or the scalar \<open>failval\<close>. (\<open>np.array\<close> keeps such a list as an array of objects;
  the model keeps the list.)
\<close>

datatype bin_entry = Data "float list" | Fail float

definition bins_data ::
  "float list \<Rightarrow> nat list \<Rightarrow> int \<Rightarrow> float \<Rightarrow> real list \<Rightarrow> error + bin_entry list" where
  "bins_data a x_digits arr_len failval x_bins =
     map_err (\<lambda>ii. bind_err (mask_select a x_digits ii) (\<lambda>sel.
                Inr (if int (length sel) > arr_len then Data sel else Fail failval)))
       [1 ..< length x_bins]"

text \<open>
  Lines 324--325 and 339--340:
  \<^verbatim>\<open>[statfunc(ii) if len(ii) > arr_len else failval for ii in bins_data]\<close>.
  An element that is the scalar \<open>failval\<close> has no \<open>len\<close>.
\<close>

fun stat_entry :: "statfunc \<Rightarrow> int \<Rightarrow> float \<Rightarrow> bin_entry \<Rightarrow> error + float" where
  "stat_entry sf arr_len failval (Data vs) =
     Inr (if int (length vs) > arr_len then apply_statfunc sf vs else failval)"
| "stat_entry sf arr_len failval (Fail v) = Inl TypeError"

definition stat_average :: "statfunc \<Rightarrow> int \<Rightarrow> float \<Rightarrow> bin_entry list \<Rightarrow> error + float list" where
  "stat_average sf arr_len failval data = map_err (stat_entry sf arr_len failval) data"

text \<open>Indexing a sequence with a non-negative index.\<close>

definition index :: "'a list \<Rightarrow> nat \<Rightarrow> error + 'a" where
  "index xs i = (if i < length xs then Inr (xs ! i) else Inl IndexError)"

text \<open>
  Lines 328--330 and 333--335, with \<open>edges\<close> standing for \<open>x_bins[:-1]\<close> or \<open>x_bins[1:]\<close>:
  \<^verbatim>\<open>[edges[ii] if len(x_bins_data[ii]) > arr_len else failval for ii in range(len(x_bins_data))]\<close>.
\<close>

fun edge_entry :: "real list \<Rightarrow> int \<Rightarrow> float \<Rightarrow> nat \<Rightarrow> bin_entry \<Rightarrow> error + float" where
  "edge_entry edges arr_len failval ii (Data vs) =
     (if int (length vs) > arr_len then bind_err (index edges ii) (\<lambda>v. Inr (Fin v))
      else Inr failval)"
| "edge_entry edges arr_len failval ii (Fail v) = Inl TypeError"

definition stat_edge :: "real list \<Rightarrow> int \<Rightarrow> float \<Rightarrow> bin_entry list \<Rightarrow> error + float list" where
  "stat_edge edges arr_len failval x_bins_data =
     map_err (\<lambda>ii. bind_err (index x_bins_data ii) (edge_entry edges arr_len failval ii))
       [0 ..< length x_bins_data]"

text \<open>Lines 323--335: the three values of \<open>bin_statval\<close> that pass the validation.\<close>

definition x_stat_of ::
  "string \<Rightarrow> statfunc \<Rightarrow> int \<Rightarrow> float \<Rightarrow> real list \<Rightarrow> bin_entry list \<Rightarrow> error + float list" where
  "x_stat_of bin_statval sf arr_len failval x_bins x_bins_data =
     (if bin_statval = ''average'' then stat_average sf arr_len failval x_bins_data
      else if bin_statval = ''left'' then stat_edge (butlast x_bins) arr_len failval x_bins_data
      else if bin_statval = ''right'' then stat_edge (tl x_bins) arr_len failval x_bins_data
      else Inl (NameError ''x_stat''))"

text \<open>
  (For any other \<open>bin_statval\<close> no branch assigns \<open>x_stat\<close>, and its first use raises
  \<open>UnboundLocalError\<close>, a \<open>NameError\<close>.)
\<close>

text \<open>
  Lines 342--343: \<open>y_std\<close> is built from a generator expression, without the brackets of the
  other comprehensions. \<open>np.array\<close> of a generator is a zero-dimensional array that holds the
  generator object; nothing ever iterates it. The model records the bins it ranges over.
\<close>

datatype y_std = Generator "bin_entry list"

text \<open>
  Lines 345--347:
  \<^verbatim>\<open>[np.nanstd(ii)/math.sqrt(len(ii)) if len(ii) > arr_len else failval for ii in y_bins_data]\<close>.
\<close>

fun std_err_entry :: "int \<Rightarrow> float \<Rightarrow> bin_entry \<Rightarrow> error + float" where
  "std_err_entry arr_len failval (Data vs) =
     Inr (if int (length vs) > arr_len
          then fdiv (nanstd vs) (Fin (sqrt (real (length vs))))
          else failval)"
| "std_err_entry arr_len failval (Fail v) = Inl TypeError"

definition y_std_err_of :: "int \<Rightarrow> float \<Rightarrow> bin_entry list \<Rightarrow> error + float list" where
  "y_std_err_of arr_len failval y_bins_data = map_err (std_err_entry arr_len failval) y_bins_data"

text \<open>
  Lines 350--355. \<open>np.where(x_stat != failval)[0]\<close> is the list of positions whose statistic
  compares unequal to \<open>failval\<close>; five arrays are then indexed with it, and \<open>y_std\<close> is not
  among them.
\<close>

definition where_ne :: "float list \<Rightarrow> float \<Rightarrow> nat list" where
  "where_ne x_stat failval = filter (\<lambda>i. fne (x_stat ! i) failval) [0 ..< length x_stat]"

definition take_idx :: "'a list \<Rightarrow> nat list \<Rightarrow> error + 'a list" where
  "take_idx a idx = map_err (index a) idx"

record binned =
  x_stat :: "float list"
  y_stat :: "float list"
  y_std :: y_std
  y_std_err :: "float list"
  x_bins_data :: "bin_entry list"
  y_bins_data :: "bin_entry list"

definition remove_failval :: "float \<Rightarrow> binned \<Rightarrow> error + binned" where
  "remove_failval failval b =
     (let x_fail_idx = where_ne (x_stat b) failval in
      bind_err (take_idx (x_stat b) x_fail_idx) (\<lambda>xs.
      bind_err (take_idx (y_stat b) x_fail_idx) (\<lambda>ys.
      bind_err (take_idx (y_std_err b) x_fail_idx) (\<lambda>yerr.
      bind_err (take_idx (x_bins_data b) x_fail_idx) (\<lambda>xb.
      bind_err (take_idx (y_bins_data b) x_fail_idx) (\<lambda>yb.
        Inr \<lparr>x_stat = xs, y_stat = ys, y_std = y_std b, y_std_err = yerr,
             x_bins_data = xb, y_bins_data = yb\<rparr>))))))"

text \<open>Lines 358--359: \<^verbatim>\<open>if statfunc == np.nanmedian: y_std_err *= 1.253\<close>.\<close>

definition median_correction :: "statfunc \<Rightarrow> binned \<Rightarrow> binned" where
  "median_correction sf b =
     (if sf = Nanmedian then b\<lparr>y_std_err := map (\<lambda>e. fmul e (Fin 1.253)) (y_std_err b)\<rparr>
      else b)"

text \<open>
  Lines 362--383. \<open>return_perc\<close> is, like \<open>x1\<close>, neither a parameter nor assigned. Of the
  objects a global lookup can return only \<open>None\<close> is false. \<open>sigma_calcs(y_stat)\<close> runs with
  its defaults: the deviation method on the levels \<open>[68., 95., 99.7]\<close>.
\<close>

datatype component =
    Stat "float list"
  | Std y_std
  | Bins "bin_entry list"
  | Perc sigma_result

definition return_val ::
  "(data_arr \<Rightarrow> real \<Rightarrow> nat \<Rightarrow> error + reduced) \<Rightarrow> string \<Rightarrow> binned \<Rightarrow> error + component list" where
  "return_val nanpercentile arr_digit b =
     bind_err (load_global ''return_perc'') (\<lambda>return_perc.
       if return_perc \<noteq> NoneValue then
         bind_err (sigma_calcs nanpercentile (Arr1 (y_stat b)) ''std'' [68, 95, 99.7] False)
           (\<lambda>perc_arr_lims.
              if arr_digit = ''n'' then
                Inr [Stat (x_stat b), Stat (y_stat b), Std (y_std b), Stat (y_std_err b),
                     Perc perc_arr_lims]
              else if arr_digit = ''y'' then
                Inr [Stat (x_stat b), Stat (y_stat b), Std (y_std b), Stat (y_std_err b),
                     Bins (x_bins_data b), Bins (y_bins_data b), Perc perc_arr_lims]
              else if arr_digit = ''o'' then
                Inr [Bins (x_bins_data b), Bins (y_bins_data b), Perc perc_arr_lims]
              else Inl (NameError ''return_val''))
       else if arr_digit = ''n'' then
         Inr [Stat (x_stat b), Stat (y_stat b), Std (y_std b), Stat (y_std_err b)]
       else if arr_digit = ''y'' then
         Inr [Stat (x_stat b), Stat (y_stat b), Std (y_std b), Stat (y_std_err b),
              Bins (x_bins_data b), Bins (y_bins_data b)]
       else if arr_digit = ''o'' then
         Inr [Bins (x_bins_data b), Bins (y_bins_data b)]
       else Inl (NameError ''return_val''))"

subsection \<open>The function\<close>

text \<open>
  Lines 278--304. After the four validations the body evaluates \<open>len(x1)\<close>; \<open>x1\<close> is not a
  parameter (those are \<open>x\<close> and \<open>y\<close>) and is never assigned, so it is a global lookup. Had the
  lookup an object to return, that object would be one of the module's: \<open>len\<close> raises
  \<open>TypeError\<close> on a module, function, class or \<open>None\<close>; a list of strings reaches
  \<open>Bins_array_create(x1, base=base)\<close>, where the minimum of an array of strings cannot be
  taken; a string is a zero-dimensional array there. No path of the function as it is
  written reaches the statements after line 308.
\<close>

definition Stats_one_arr ::
  "string \<Rightarrow> real list \<Rightarrow> float list \<Rightarrow> real \<Rightarrow> int \<Rightarrow> string \<Rightarrow> float list option \<Rightarrow> statfunc
     \<Rightarrow> string \<Rightarrow> float \<Rightarrow> error + component list" where
  "Stats_one_arr file_msg x y base arr_len arr_digit weights sf bin_statval failval =
     (if \<not> (arr_digit = ''y'' \<or> arr_digit = ''n'' \<or> arr_digit = ''o'') then
        Inl (LSSUtils_Error
          (file_msg @ '' `arr_digit` ('' @ arr_digit @ '') is not a valid input. Exiting''))
      else if \<not> (length x > 0 \<and> length y > 0) then
        Inl (LSSUtils_Error
          (file_msg @ '' The arrays `x1` and `y2` must have at least one value''))
      else if \<not> (arr_len > 0) then
        Inl (LSSUtils_Error
          (file_msg @ '' `arr_len` ('' @ str_int arr_len @ '') must be greated than zero!''))
      else if bin_statval \<notin> set [''average'', ''left'', ''right''] then
        Inl (LSSUtils_Error
          (file_msg @ '' `bin_statval` ('' @ bin_statval @ '') is not a valid input! Exiting''))
      else
        bind_err (load_global ''x1'') (\<lambda>x1.
          case x1 of
            Object \<Rightarrow> Inl TypeError
          | NoneValue \<Rightarrow> Inl TypeError
          | Strings \<Rightarrow> Inl TypeError
          | Text \<Rightarrow>
              Inl (LSSUtils_Error
                (file_msg @ '' The input array is not of dimension 1, but of `'' @ str_nat 0 @ ''`''))))"

section \<open>Properties of RoundingOps\<close>









section \<open>Properties of \<open>Bins_array_create\<close>\<close>

















section \<open>Properties of \<open>sigma_calcs\<close>\<close>

subsection \<open>The dictionary and the loops over the levels\<close>

lemma dict_set_fresh: "k \<notin> fst ` set d \<Longrightarrow> dict_set k v d = d @ [(k, v)]"
  by (induction d) auto

lemma map_of_dict_set: "map_of (dict_set k v d) k' = (if k' = k then Some v else map_of d k')"
  by (induction d) auto

lemma dict_set_overwrite:
  "distinct ks \<Longrightarrow> k \<in> set ks \<Longrightarrow>
     dict_set k v (map (\<lambda>i. (i, h i)) ks) = map (\<lambda>i. (i, if i = k then v else h i)) ks"
proof (induction ks)
  case Nil
  then show ?case by simp
next
  case (Cons a ks)
  show ?case
  proof (cases "a = k")
    case True
    then have "k \<notin> set ks" using Cons.prems(1) by simp
    then have "map (\<lambda>i. (i, if i = k then v else h i)) ks = map (\<lambda>i. (i, h i)) ks"
      by (intro map_cong) auto
    then show ?thesis using True by simp
  next
    case False
    then have "k \<in> set ks" using Cons.prems(2) by simp
    moreover have "distinct ks" using Cons.prems(1) by simp
    ultimately show ?thesis using False Cons.IH by simp
  qed
qed

lemma fold_dict_set_init:
  "fold (\<lambda>ii d. dict_set ii (g ii) d) [0 ..< n] [] = map (\<lambda>ii. (ii, g ii)) [0 ..< n]"
proof (induction n)
  case 0
  then show ?case by simp
next
  case (Suc n)
  have "n \<notin> fst ` set (map (\<lambda>ii. (ii, g ii)) [0 ..< n])" by (auto simp: image_iff)
  then show ?case using Suc by (simp add: dict_set_fresh)
qed

lemma fold_dict_set_overwrite:
  "m \<le> n \<Longrightarrow>
     fold (\<lambda>ii d. dict_set ii (v ii) d) [0 ..< m] (map (\<lambda>ii. (ii, g ii)) [0 ..< n]) =
       map (\<lambda>ii. (ii, if ii < m then v ii else g ii)) [0 ..< n]"
proof (induction m)
  case 0
  then show ?case by simp
next
  case (Suc m)
  then have mn: "m < n" by simp
  have "fold (\<lambda>ii d. dict_set ii (v ii) d) [0 ..< Suc m] (map (\<lambda>ii. (ii, g ii)) [0 ..< n]) =
          dict_set m (v m) (map (\<lambda>ii. (ii, if ii < m then v ii else g ii)) [0 ..< n])"
    using Suc by simp
  also have "\<dots> = map (\<lambda>ii. (ii, if ii = m then v m else if ii < m then v ii else g ii)) [0 ..< n]"
    using mn by (intro dict_set_overwrite) simp_all
  also have "\<dots> = map (\<lambda>ii. (ii, if ii < Suc m then v ii else g ii)) [0 ..< n]"
    by (intro map_cong) auto
  finally show ?case .
qed

lemma std_loop_fold:
  "(\<And>k. k \<in> set ks \<Longrightarrow>
      column_stack_T
        (elementwise fsub mean_val (elementwise fmul (Scalar (Fin (real (k + 1)))) std_val))
        (elementwise fadd mean_val (elementwise fmul (Scalar (Fin (real (k + 1)))) std_val))
      = Inr (st k)) \<Longrightarrow>
   std_loop mean_val std_val ks d = Inr (fold (\<lambda>k d. dict_set k (Rows (st k)) d) ks d)"
proof (induction ks arbitrary: d)
  case Nil
  then show ?case by simp
next
  case (Cons k ks)
  have "column_stack_T
        (elementwise fsub mean_val (elementwise fmul (Scalar (Fin (real (k + 1)))) std_val))
        (elementwise fadd mean_val (elementwise fmul (Scalar (Fin (real (k + 1)))) std_val))
      = Inr (st k)" by (rule Cons.prems) simp
  moreover have "std_loop mean_val std_val ks (dict_set k (Rows (st k)) d) =
      Inr (fold (\<lambda>k d. dict_set k (Rows (st k)) d) ks (dict_set k (Rows (st k)) d))"
    by (rule Cons.IH) (rule Cons.prems, simp)
  ultimately show ?case by (simp add: Let_def)
qed

lemma flatten_loop_fold:
  "distinct ks \<Longrightarrow> (\<And>k. k \<in> set ks \<Longrightarrow> map_of d k = Some (Rows (st k))) \<Longrightarrow>
   flatten_loop ks d = Inr (fold (\<lambda>k d. dict_set k (Flat (concat (st k))) d) ks d)"
proof (induction ks arbitrary: d)
  case Nil
  then show ?case by simp
next
  case (Cons k ks)
  have here: "map_of d k = Some (Rows (st k))" by (rule Cons.prems(2)) simp
  have "flatten_loop ks (dict_set k (Flat (concat (st k))) d) =
      Inr (fold (\<lambda>k d. dict_set k (Flat (concat (st k))) d) ks (dict_set k (Flat (concat (st k))) d))"
  proof (rule Cons.IH)
    show "distinct ks" using Cons.prems(1) by simp
    fix k' assume k': "k' \<in> set ks"
    then have "k' \<noteq> k" using Cons.prems(1) by auto
    then show "map_of (dict_set k (Flat (concat (st k))) d) k' = Some (Rows (st k'))"
      using Cons.prems(2) [of k'] k' by (simp add: map_of_dict_set)
  qed
  then show ?case using here by (simp add: dict_get_def)
qed

lemma map_of_indexed:
  "map_of (map (\<lambda>ii. (ii, g ii)) [0 ..< n]) k = (if k < n then Some (g k) else None)"
proof (cases "k < n")
  case True
  then have "(k, g k) \<in> set (map (\<lambda>ii. (ii, g ii)) [0 ..< n])" by (simp add: image_iff)
  moreover have "distinct (map fst (map (\<lambda>ii. (ii, g ii)) [0 ..< n]))"
    by (simp add: comp_def)
  ultimately have "map_of (map (\<lambda>ii. (ii, g ii)) [0 ..< n]) k = Some (g k)"
    by (rule map_of_is_SomeI [rotated])
  then show ?thesis using True by simp
next
  case False
  then have "k \<notin> fst ` set (map (\<lambda>ii. (ii, g ii)) [0 ..< n])" by (auto simp: image_iff)
  then have "map_of (map (\<lambda>ii. (ii, g ii)) [0 ..< n]) k = None"
    by (rule map_of_eq_None_iff [THEN iffD2])
  then show ?thesis using False by simp
qed

lemma fold_dict_set_all:
  "fold (\<lambda>ii d. dict_set ii (v ii) d) [0 ..< n] (map (\<lambda>ii. (ii, g ii)) [0 ..< n]) =
     map (\<lambda>ii. (ii, v ii)) [0 ..< n]"
proof -
  have "fold (\<lambda>ii d. dict_set ii (v ii) d) [0 ..< n] (map (\<lambda>ii. (ii, g ii)) [0 ..< n]) =
          map (\<lambda>ii. (ii, if ii < n then v ii else g ii)) [0 ..< n]"
    by (rule fold_dict_set_overwrite) simp
  also have "\<dots> = map (\<lambda>ii. (ii, v ii)) [0 ..< n]" by (intro map_cong) auto
  finally show ?thesis .
qed

lemma std_loop_scalar:
  "std_loop (Scalar m) (Scalar s) [0 ..< n] (map (\<lambda>k. (k, g k)) [0 ..< n]) =
     Inr (map (\<lambda>k. (k, Rows [ [fsub m (fmul (Fin (real (k + 1))) s)],
                              [fadd m (fmul (Fin (real (k + 1))) s)]])) [0 ..< n])"
proof -
  have "std_loop (Scalar m) (Scalar s) [0 ..< n] (map (\<lambda>k. (k, g k)) [0 ..< n]) =
      Inr (fold (\<lambda>k d. dict_set k (Rows [ [fsub m (fmul (Fin (real (k + 1))) s)],
                              [fadd m (fmul (Fin (real (k + 1))) s)]]) d) [0 ..< n]
             (map (\<lambda>k. (k, g k)) [0 ..< n]))"
    by (rule std_loop_fold) (simp add: column_stack_T_def)
  then show ?thesis by (simp only: fold_dict_set_all)
qed

lemma map2_same: "map2 f (map g xs) (map h xs) = map (\<lambda>x. f (g x) (h x)) xs"
  by (induction xs) auto

lemma std_loop_vector:
  "std_loop (Vector (map mf rows)) (Vector (map sf rows)) [0 ..< n]
       (map (\<lambda>k. (k, g k)) [0 ..< n]) =
     Inr (map (\<lambda>k. (k, Rows [map (\<lambda>r. fsub (mf r) (fmul (Fin (real (k + 1))) (sf r))) rows,
                              map (\<lambda>r. fadd (mf r) (fmul (Fin (real (k + 1))) (sf r))) rows]))
            [0 ..< n])"
proof -
  have "std_loop (Vector (map mf rows)) (Vector (map sf rows)) [0 ..< n]
       (map (\<lambda>k. (k, g k)) [0 ..< n]) =
      Inr (fold (\<lambda>k d. dict_set k
                 (Rows [map (\<lambda>r. fsub (mf r) (fmul (Fin (real (k + 1))) (sf r))) rows,
                        map (\<lambda>r. fadd (mf r) (fmul (Fin (real (k + 1))) (sf r))) rows]) d)
             [0 ..< n] (map (\<lambda>k. (k, g k)) [0 ..< n]))"
    by (rule std_loop_fold) (simp add: column_stack_T_def map2_same comp_def)
  then show ?thesis by (simp only: fold_dict_set_all)
qed

lemma flatten_loop_rows:
  "flatten_loop [0 ..< n] (map (\<lambda>k. (k, Rows (st k))) [0 ..< n]) =
     Inr (map (\<lambda>k. (k, Flat (concat (st k)))) [0 ..< n])"
proof -
  have "flatten_loop [0 ..< n] (map (\<lambda>k. (k, Rows (st k))) [0 ..< n]) =
      Inr (fold (\<lambda>k d. dict_set k (Flat (concat (st k))) d) [0 ..< n]
             (map (\<lambda>k. (k, Rows (st k))) [0 ..< n]))"
    by (rule flatten_loop_fold) (simp_all add: map_of_indexed)
  then show ?thesis by (simp only: fold_dict_set_all)
qed

lemma sigma_calcs_std_1d:
  "sigma_calcs np (Arr1 xs) ''std'' perc_arr rms =
     Inr (let d = map (\<lambda>k. (k, Flat [fsub (nanmean xs) (fmul (Fin (real (k + 1))) (nanstd xs)),
                                     fadd (nanmean xs) (fmul (Fin (real (k + 1))) (nanstd xs))]))
                    [0 ..< length perc_arr]
          in if rms then Sigma_dict_mean_std d (Scalar (nanmean xs)) (Scalar (nanstd xs))
             else Sigma_dict d)"
  by (simp add: sigma_calcs_def Let_def fold_dict_set_init std_loop_scalar flatten_loop_rows
      del: upt_Suc)

lemma sigma_calcs_std_2d:
  "sigma_calcs np (Arr2 rows) ''std'' perc_arr rms =
     Inr (let d = map (\<lambda>k. (k, Rows
                    [map (\<lambda>r. fsub (nanmean r) (fmul (Fin (real (k + 1))) (nanstd r))) rows,
                     map (\<lambda>r. fadd (nanmean r) (fmul (Fin (real (k + 1))) (nanstd r))) rows]))
                    [0 ..< length perc_arr]
          in if rms then Sigma_dict_mean_std d (Vector (map nanmean rows)) (Vector (map nanstd rows))
             else Sigma_dict d)"
  by (simp add: sigma_calcs_def Let_def fold_dict_set_init std_loop_vector del: upt_Suc)

lemma valid_entries_map_Fin: "valid_entries (map Fin vs) = vs"
  by (induction vs) auto

lemma nanmean_valid: "nanmean (map Fin (valid_entries xs)) = nanmean xs"
  by (simp add: nanmean_def valid_entries_map_Fin)

lemma nanstd_valid: "nanstd (map Fin (valid_entries xs)) = nanstd xs"
  by (simp add: nanstd_def valid_entries_map_Fin)

text \<open>
  Claim C6. With the deviation method, for every one-dimensional array \<open>xs\<close>, every
  two-dimensional array \<open>rows\<close> and every sequence of levels, the band stored for the level
  of index \<open>k\<close> (the \<open>k + 1\<close>-th level) is \<open>lower = mean - (k + 1) * std\<close> and
  \<open>upper = mean + (k + 1) * std\<close>: a flat pair from the mean and deviation of the whole of
  \<open>xs\<close> (axis 0), the row of lower and the row of upper values from the mean and deviation
  of each row of \<open>rows\<close> (axis 1). Mean and deviation are those of the entries that are not
  \<open>NaN\<close>.
\<close>

theorem sigma_calcs_std_bands:
  "sigma_calcs np (Arr1 xs) ''std'' perc_arr rms =
     Inr (let d = map (\<lambda>k. (k, Flat [fsub (nanmean xs) (fmul (Fin (real (k + 1))) (nanstd xs)),
                                     fadd (nanmean xs) (fmul (Fin (real (k + 1))) (nanstd xs))]))
                    [0 ..< length perc_arr]
          in if rms then Sigma_dict_mean_std d (Scalar (nanmean xs)) (Scalar (nanstd xs))
             else Sigma_dict d) \<and>
   sigma_calcs np (Arr2 rows) ''std'' perc_arr rms =
     Inr (let d = map (\<lambda>k. (k, Rows
                    [map (\<lambda>r. fsub (nanmean r) (fmul (Fin (real (k + 1))) (nanstd r))) rows,
                     map (\<lambda>r. fadd (nanmean r) (fmul (Fin (real (k + 1))) (nanstd r))) rows]))
                    [0 ..< length perc_arr]
          in if rms then Sigma_dict_mean_std d (Vector (map nanmean rows)) (Vector (map nanstd rows))
             else Sigma_dict d) \<and>
   nanmean xs = (if valid_entries xs = [] then NaN else Fin (mean (valid_entries xs))) \<and>
   nanstd xs = (if valid_entries xs = [] then NaN
                else Fin (sqrt (mean (map (\<lambda>v. (v - mean (valid_entries xs))\<^sup>2)
                                      (valid_entries xs))))) \<and>
   nanmean (map Fin (valid_entries xs)) = nanmean xs \<and>
   nanstd (map Fin (valid_entries xs)) = nanstd xs"
proof (intro conjI)
  show "nanmean xs = (if valid_entries xs = [] then NaN else Fin (mean (valid_entries xs)))"
    by (simp add: nanmean_def)
  show "nanstd xs = (if valid_entries xs = [] then NaN
                else Fin (sqrt (mean (map (\<lambda>v. (v - mean (valid_entries xs))\<^sup>2)
                                      (valid_entries xs)))))"
    by (simp add: nanstd_def Let_def)
qed (rule sigma_calcs_std_1d sigma_calcs_std_2d nanmean_valid nanstd_valid)+

subsection \<open>Order and nesting of the bands\<close>







text \<open>
  Claim C10, as amended. For every \<open>type_sigma\<close> other than \<open>'perc'\<close> and \<open>'std'\<close>,
  \<open>sigma_calcs\<close> raises no error and returns a dictionary that maps each level index to an
  empty list, on every two-dimensional input; on a one-dimensional input it does so when
  there is no level.
\<close>

theorem sigma_calcs_unknown_mode:
  "type_sigma \<noteq> ''perc'' \<and> type_sigma \<noteq> ''std'' \<longrightarrow>
     sigma_calcs np (Arr2 rows) type_sigma perc_arr rms =
       Inr (let d = map (\<lambda>k. (k, EmptyList)) [0 ..< length perc_arr]
            in if rms then Sigma_dict_mean_std d (Vector (map nanmean rows))
                             (Vector (map nanstd rows))
               else Sigma_dict d) \<and>
     sigma_calcs np (Arr1 xs) type_sigma [] rms =
       Inr (if rms then Sigma_dict_mean_std [] (Scalar (nanmean xs)) (Scalar (nanstd xs))
            else Sigma_dict [])"
  by (simp add: sigma_calcs_def Let_def fold_dict_set_init del: upt_Suc)

text \<open>The theorem at the mode \<open>'median'\<close>.\<close>

theorem sigma_calcs_unknown_mode_witness:
  "''median'' \<noteq> ''perc'' \<and> ''median'' \<noteq> ''std'' \<and>
   sigma_calcs (\<lambda>d q a. Inl ValueError) (Arr2 [ [Fin 1, Fin 3], [NaN]]) ''median''
       [68, 95, 997 / 10] False =
     Inr (Sigma_dict [(0, EmptyList), (1, EmptyList), (2, EmptyList)]) \<and>
   sigma_calcs (\<lambda>d q a. Inl ValueError) (Arr1 [Fin 1, Fin 3]) ''median'' [] False =
     Inr (Sigma_dict [])"
  using sigma_calcs_unknown_mode [of "''median''" "\<lambda>d q a. Inl ValueError"
          "[ [Fin 1, Fin 3], [NaN]]" "[68, 95, 997 / 10]" False "[Fin 1, Fin 3]"]
  by (simp add: upt_conv_Cons)

text \<open>
  The claim as stated fails on a one-dimensional input with a level: the final loop calls
  \<open>.flatten()\<close> on the empty list stored for the first level, and \<open>AttributeError\<close> is
  raised.
\<close>

theorem sigma_calcs_unknown_mode_counterexample:
  "''median'' \<noteq> ''perc'' \<and> ''median'' \<noteq> ''std'' \<and>
   sigma_calcs (\<lambda>d q a. Inl ValueError) (Arr1 [Fin 1, Fin 3]) ''median''
       [68, 95, 997 / 10] False = Inl AttributeError"
  by (simp add: sigma_calcs_def Let_def upt_conv_Cons dict_get_def)

section \<open>Properties of \<open>Stats_one_arr\<close>\<close>

lemma load_global_x1: "load_global ''x1'' = Inl (NameError ''x1'')"
  by (simp add: load_global_def module_globals_def builtin_names_def)

lemma load_global_return_perc: "load_global ''return_perc'' = Inl (NameError ''return_perc'')"
  by (simp add: load_global_def module_globals_def builtin_names_def)

text \<open>
  Claim C1. For every input that passes the four validations, \<open>Stats_one_arr\<close> fails with
  the \<open>NameError\<close> of the undefined name \<open>x1\<close>, and for no input at all does it return a
  result. Neither \<open>x1\<close> nor \<open>return_perc\<close> can be resolved, so the statements that build the
  return value would fail on \<open>return_perc\<close> as well.
\<close>

theorem Stats_one_arr_name_error:
  "((arr_digit = ''y'' \<or> arr_digit = ''n'' \<or> arr_digit = ''o'') \<and> x \<noteq> [] \<and> y \<noteq> [] \<and>
      0 < arr_len \<and> (bin_statval = ''average'' \<or> bin_statval = ''left'' \<or> bin_statval = ''right'')
    \<longrightarrow> Stats_one_arr file_msg x y base arr_len arr_digit weights sf bin_statval failval =
          Inl (NameError ''x1'')) \<and>
   (\<forall>r. Stats_one_arr file_msg x y base arr_len arr_digit weights sf bin_statval failval \<noteq> Inr r) \<and>
   load_global ''x1'' = Inl (NameError ''x1'') \<and>
   load_global ''return_perc'' = Inl (NameError ''return_perc'') \<and>
   return_val np arr_digit b = Inl (NameError ''return_perc'')"
  by (simp add: Stats_one_arr_def return_val_def load_global_x1 load_global_return_perc)

text \<open>The theorem at \<open>x = [0.5, 2.5]\<close>, \<open>y = [1, 2]\<close> with the defaults of the other parameters.\<close>

theorem Stats_one_arr_name_error_witness:
  "(''n'' = ''y'' \<or> ''n'' = ''n'' \<or> ''n'' = ''o'') \<and> [1 / 2, 5 / 2 :: real] \<noteq> [] \<and>
   [Fin 1, Fin 2] \<noteq> [] \<and> (0::int) < 1 \<and>
   (''average'' = ''average'' \<or> ''average'' = ''left'' \<or> ''average'' = ''right'') \<and>
   Stats_one_arr ''stats_funcs.py'' [1 / 2, 5 / 2] [Fin 1, Fin 2] 1 1 ''n'' None Nanmean
       ''average'' NaN = Inl (NameError ''x1'')"
  using Stats_one_arr_name_error [of "''n''" "[1 / 2, 5 / 2]" "[Fin 1, Fin 2]" 1 "''average''"
          "''stats_funcs.py''" 1 None Nanmean NaN]
  by simp

text \<open>
  Claim C8. \<open>Stats_one_arr\<close> checks its parameters first, in this order: it raises
  \<open>LSSUtils_Error\<close> with a message naming the parameter when \<open>arr_digit\<close> is not one of
  \<open>'n'\<close>, \<open>'y'\<close>, \<open>'o'\<close>, when \<open>x\<close> or \<open>y\<close> is empty, when \<open>arr_len\<close> is not greater than
  zero, and when \<open>bin_statval\<close> is not one of \<open>'average'\<close>, \<open>'left'\<close>, \<open>'right'\<close>; it raises
  \<open>LSSUtils_Error\<close> in exactly these cases. The error depends on nothing but the file
  prefix and the checked parameters: nothing is computed from \<open>base\<close>, \<open>statfunc\<close>,
  \<open>failval\<close> or the elements of the arrays before a check fails.
\<close>

theorem Stats_one_arr_validation:
  "(\<not> (arr_digit = ''y'' \<or> arr_digit = ''n'' \<or> arr_digit = ''o'') \<longrightarrow>
      Stats_one_arr file_msg x y base arr_len arr_digit weights sf bin_statval failval =
        Inl (LSSUtils_Error
          (file_msg @ '' `arr_digit` ('' @ arr_digit @ '') is not a valid input. Exiting''))) \<and>
   ((arr_digit = ''y'' \<or> arr_digit = ''n'' \<or> arr_digit = ''o'') \<and> (x = [] \<or> y = []) \<longrightarrow>
      Stats_one_arr file_msg x y base arr_len arr_digit weights sf bin_statval failval =
        Inl (LSSUtils_Error
          (file_msg @ '' The arrays `x1` and `y2` must have at least one value''))) \<and>
   ((arr_digit = ''y'' \<or> arr_digit = ''n'' \<or> arr_digit = ''o'') \<and> x \<noteq> [] \<and> y \<noteq> [] \<and>
      \<not> 0 < arr_len \<longrightarrow>
      Stats_one_arr file_msg x y base arr_len arr_digit weights sf bin_statval failval =
        Inl (LSSUtils_Error
          (file_msg @ '' `arr_len` ('' @ str_int arr_len @ '') must be greated than zero!''))) \<and>
   ((arr_digit = ''y'' \<or> arr_digit = ''n'' \<or> arr_digit = ''o'') \<and> x \<noteq> [] \<and> y \<noteq> [] \<and>
      0 < arr_len \<and>
      \<not> (bin_statval = ''average'' \<or> bin_statval = ''left'' \<or> bin_statval = ''right'') \<longrightarrow>
      Stats_one_arr file_msg x y base arr_len arr_digit weights sf bin_statval failval =
        Inl (LSSUtils_Error
          (file_msg @ '' `bin_statval` ('' @ bin_statval @ '') is not a valid input! Exiting''))) \<and>
   ((\<exists>msg. Stats_one_arr file_msg x y base arr_len arr_digit weights sf bin_statval failval =
            Inl (LSSUtils_Error msg)) \<longleftrightarrow>
      (\<not> (arr_digit = ''y'' \<or> arr_digit = ''n'' \<or> arr_digit = ''o'') \<or> x = [] \<or> y = [] \<or>
       \<not> 0 < arr_len \<or>
       \<not> (bin_statval = ''average'' \<or> bin_statval = ''left'' \<or> bin_statval = ''right'')))"
  by (simp add: Stats_one_arr_def load_global_x1)

text \<open>The theorem at one input for each of the four checks, and at an input that passes them.\<close>

theorem Stats_one_arr_validation_witness:
  "\<not> (''z'' = ''y'' \<or> ''z'' = ''n'' \<or> ''z'' = ''o'') \<and>
   Stats_one_arr ''stats_funcs.py'' [1] [Fin 1] 1 1 ''z'' None Nanmean ''average'' NaN =
     Inl (LSSUtils_Error ''stats_funcs.py `arr_digit` (z) is not a valid input. Exiting'') \<and>
   (''n'' = ''y'' \<or> ''n'' = ''n'' \<or> ''n'' = ''o'') \<and> ([1 :: real] = [] \<or> ([] :: float list) = []) \<and>
   Stats_one_arr ''stats_funcs.py'' [1] [] 1 1 ''n'' None Nanmean ''average'' NaN =
     Inl (LSSUtils_Error ''stats_funcs.py The arrays `x1` and `y2` must have at least one value'') \<and>
   [1 :: real] \<noteq> [] \<and> [Fin 1] \<noteq> [] \<and> \<not> (0 :: int) < - 12 \<and>
   Stats_one_arr ''stats_funcs.py'' [1] [Fin 1] 1 (- 12) ''n'' None Nanmean ''average'' NaN =
     Inl (LSSUtils_Error ''stats_funcs.py `arr_len` (-12) must be greated than zero!'') \<and>
   (0 :: int) < 1 \<and> \<not> (''mid'' = ''average'' \<or> ''mid'' = ''left'' \<or> ''mid'' = ''right'') \<and>
   Stats_one_arr ''stats_funcs.py'' [1] [Fin 1] 1 1 ''n'' None Nanmean ''mid'' NaN =
     Inl (LSSUtils_Error ''stats_funcs.py `bin_statval` (mid) is not a valid input! Exiting'') \<and>
   (''left'' = ''average'' \<or> ''left'' = ''left'' \<or> ''left'' = ''right'') \<and>
   \<not> (\<exists>msg. Stats_one_arr ''stats_funcs.py'' [1] [Fin 1] 1 1 ''n'' None Nanmean ''left'' NaN =
            Inl (LSSUtils_Error msg))"
  using Stats_one_arr_validation [of "''z''" "''stats_funcs.py''" "[1]" "[Fin 1]" 1 1 None Nanmean
          "''average''" NaN]
        Stats_one_arr_validation [of "''n''" "''stats_funcs.py''" "[1]" "[]" 1 1 None Nanmean
          "''average''" NaN]
        Stats_one_arr_validation [of "''n''" "''stats_funcs.py''" "[1]" "[Fin 1]" 1 "- 12" None
          Nanmean "''average''" NaN]
        Stats_one_arr_validation [of "''n''" "''stats_funcs.py''" "[1]" "[Fin 1]" 1 1 None Nanmean
          "''mid''" NaN]
        Stats_one_arr_validation [of "''n''" "''stats_funcs.py''" "[1]" "[Fin 1]" 1 1 None Nanmean
          "''left''" NaN]
  by (simp add: str_int_def str_nat.simps)

subsection \<open>The occupancy threshold\<close>

lemma map_err_all: "(\<And>k. k \<in> set ks \<Longrightarrow> f k = Inr (g k)) \<Longrightarrow> map_err f ks = Inr (map g ks)"
  by (induction ks) simp_all

lemma bins_data_entries:
  assumes "length a = length x_digits"
  shows "bins_data a x_digits thr failval x_bins =
     Inr (map (\<lambda>ii. if int (length (map fst (filter (\<lambda>p. snd p = ii) (zip a x_digits)))) > thr
                     then Data (map fst (filter (\<lambda>p. snd p = ii) (zip a x_digits)))
                     else Fail failval) [1 ..< length x_bins])"
  unfolding bins_data_def using assms by (intro map_err_all) (simp add: mask_select_def)

lemma occupancy_count:
  "length a = length x_digits \<Longrightarrow>
     length (map fst (filter (\<lambda>p. snd p = ii) (zip a x_digits))) =
       length (filter (\<lambda>d. d = ii) x_digits)"
proof (induction a x_digits rule: list_induct2)
  case Nil
  then show ?case by simp
next
  case (Cons v a d x_digits)
  then show ?case by simp
qed

text \<open>
  The comparison itself. The statement at line 305 turns a supplied \<open>arr_len > 0\<close> into the
  threshold \<open>arr_len - 1\<close>, and the statements at lines 313--319 keep the subsequence of a bin
  exactly when its occupancy is strictly greater than that threshold: a bin whose occupancy
  equals \<open>arr_len\<close> keeps its subsequence, and the reducer applies to it; the entry of a bin
  whose occupancy equals \<open>arr_len - 1\<close> is \<open>failval\<close>. \<open>a\<close> stands for \<open>x\<close> or \<open>y\<close>, \<open>ii\<close>
  for the index of a bin.
\<close>

lemma bins_data_threshold:
  assumes pos: "0 < arr_len" and len: "length a = length x_digits"
    and lo: "1 \<le> ii" and hi: "ii < length x_bins"
  shows "\<exists>entries sel.
           sel = map fst (filter (\<lambda>p. snd p = ii) (zip a x_digits)) \<and>
           length sel = length (filter (\<lambda>d. d = ii) x_digits) \<and>
           arr_len_threshold arr_len = arr_len - 1 \<and>
           bins_data a x_digits (arr_len_threshold arr_len) failval x_bins = Inr entries \<and>
           length entries = length x_bins - 1 \<and>
           entries ! (ii - 1) = (if int (length sel) > arr_len - 1 then Data sel else Fail failval) \<and>
           (int (length sel) = arr_len \<longrightarrow>
              entries ! (ii - 1) = Data sel \<and>
              stat_entry sf (arr_len_threshold arr_len) failval (entries ! (ii - 1)) =
                Inr (apply_statfunc sf sel)) \<and>
           (int (length sel) = arr_len - 1 \<longrightarrow> entries ! (ii - 1) = Fail failval)"
proof -
  define sel where "sel = (\<lambda>ii. map fst (filter (\<lambda>p. snd p = ii) (zip a x_digits)))"
  define entry where
    "entry = (\<lambda>ii. if int (length (sel ii)) > arr_len - 1 then Data (sel ii) else Fail failval)"
  define entries where "entries = map entry [1 ..< length x_bins]"
  have thr: "arr_len_threshold arr_len = arr_len - 1"
    using pos by (simp add: arr_len_threshold_def)
  have res: "bins_data a x_digits (arr_len_threshold arr_len) failval x_bins = Inr entries"
    unfolding thr entries_def entry_def sel_def using len by (rule bins_data_entries)
  have n: "length entries = length x_bins - 1" by (simp add: entries_def)
  have "entries ! (ii - 1) = entry (1 + (ii - 1))"
    unfolding entries_def using lo hi by (intro nth_map_upt) simp
  then have at: "entries ! (ii - 1) = entry ii" using lo by simp
  have occ: "length (sel ii) = length (filter (\<lambda>d. d = ii) x_digits)"
    unfolding sel_def using len by (rule occupancy_count)
  have incl: "int (length (sel ii)) = arr_len \<longrightarrow>
              entries ! (ii - 1) = Data (sel ii) \<and>
              stat_entry sf (arr_len_threshold arr_len) failval (entries ! (ii - 1)) =
                Inr (apply_statfunc sf (sel ii))"
    unfolding at thr entry_def by simp
  have excl: "int (length (sel ii)) = arr_len - 1 \<longrightarrow> entries ! (ii - 1) = Fail failval"
    unfolding at entry_def by simp
  have shape: "entries ! (ii - 1) =
      (if int (length (sel ii)) > arr_len - 1 then Data (sel ii) else Fail failval)"
    unfolding at entry_def by (rule refl)
  have s: "sel ii = map fst (filter (\<lambda>p. snd p = ii) (zip a x_digits))" by (simp add: sel_def)
  show ?thesis
    by (intro exI conjI) (rule s, rule occ, rule thr, rule res, rule n, rule shape, rule incl, rule excl)
qed

text \<open>
  Four values in the bins 1, 1, 2, 3 with \<open>arr_len = 2\<close>: the first bin, of occupancy 2, is
  kept and the second, of occupancy 1, is not.
\<close>

lemma bins_data_threshold_example:
  "(0::int) < 2 \<and> length [Fin 1, Fin 2, Fin 3, Fin 4 :: float] = length [1, 1, 2, 3 :: nat] \<and>
   (1::nat) \<le> 1 \<and> (1::nat) < length [0, 1, 2, 3 :: real] \<and>
   (1::nat) \<le> 2 \<and> (2::nat) < length [0, 1, 2, 3 :: real] \<and>
   (\<exists>entries.
      bins_data [Fin 1, Fin 2, Fin 3, Fin 4] [1, 1, 2, 3] (arr_len_threshold 2) NaN [0, 1, 2, 3] =
        Inr entries \<and>
      length entries = 3 \<and> entries ! 0 = Data [Fin 1, Fin 2] \<and> entries ! 1 = Fail NaN \<and>
      stat_entry Nanmean (arr_len_threshold 2) NaN (entries ! 0) = Inr (Fin (3 / 2)))"
  using bins_data_threshold [of 2 "[Fin 1, Fin 2, Fin 3, Fin 4]" "[1, 1, 2, 3]" 1 "[0, 1, 2, 3]"
          NaN Nanmean]
        bins_data_threshold [of 2 "[Fin 1, Fin 2, Fin 3, Fin 4]" "[1, 1, 2, 3]" 2 "[0, 1, 2, 3]"
          NaN Nanmean]
  by (auto simp: nanmean_def mean_def)

text \<open>
  Claim C2 does not hold of the code, although the comparison is the one it describes. At
  \<open>x = [0.5, 0.6, 2.5]\<close>, \<open>y = [1, 2, 3]\<close>, \<open>base = 1\<close> and \<open>arr_len = 2\<close> the function
  raises \<open>NameError\<close> and no bin receives anything. The statements of its body, run in their
  order on \<open>x\<close> in the place of \<open>x1\<close>, give the edges \<open>0, 1, 2, 3\<close> and the threshold 1;
  the first bin, of occupancy 2, keeps its subsequence and the third, of occupancy 1, has
  the entry \<open>failval\<close>. The comprehensions that compute the statistics then take \<open>len\<close> of
  every entry, and \<open>len\<close> of the scalar \<open>failval\<close> raises \<open>TypeError\<close>: the included bin
  receives no statistic and the excluded bin no sentinel.
\<close>

theorem excluded_bin_raises:
  "Stats_one_arr ''stats_funcs.py'' [1 / 2, 3 / 5, 5 / 2] [Fin 1, Fin 2, Fin 3] 1 2 ''n'' None
       Nanmean ''average'' NaN = Inl (NameError ''x1'') \<and>
   Bins_array_create ''stats_funcs.py'' (array1 [1 / 2, 3 / 5, 5 / 2]) 1 = Inr [0, 1, 2, 3] \<and>
   digitize [1 / 2, 3 / 5, 5 / 2] [0, 1, 2, 3] = Inr [1, 1, 3] \<and>
   arr_len_threshold 2 = 1 \<and>
   bins_data (map Fin [1 / 2, 3 / 5, 5 / 2]) [1, 1, 3] 1 NaN [0, 1, 2, 3] =
     Inr [Data [Fin (1 / 2), Fin (3 / 5)], Fail NaN, Fail NaN] \<and>
   bins_data [Fin 1, Fin 2, Fin 3] [1, 1, 3] 1 NaN [0, 1, 2, 3] =
     Inr [Data [Fin 1, Fin 2], Fail NaN, Fail NaN] \<and>
   x_stat_of ''average'' Nanmean 1 NaN [0, 1, 2, 3]
       [Data [Fin (1 / 2), Fin (3 / 5)], Fail NaN, Fail NaN] = Inl TypeError \<and>
   stat_average Nanmean 1 NaN [Data [Fin 1, Fin 2], Fail NaN, Fail NaN] = Inl TypeError \<and>
   y_std_err_of 1 NaN [Data [Fin 1, Fin 2], Fail NaN, Fail NaN] = Inl TypeError"
proof (intro conjI)
  show "Stats_one_arr ''stats_funcs.py'' [1 / 2, 3 / 5, 5 / 2] [Fin 1, Fin 2, Fin 3] 1 2 ''n'' None
       Nanmean ''average'' NaN = Inl (NameError ''x1'')"
    by (simp add: Stats_one_arr_def load_global_x1)
  show "Bins_array_create ''stats_funcs.py'' (array1 [1 / 2, 3 / 5, 5 / 2]) 1 = Inr [0, 1, 2, 3]"
    by (simp add: Bins_array_create_def array1_def ndim_def myfloor_def myceil_def
        np_arange_def upt_conv_Cons)
  show "digitize [1 / 2, 3 / 5, 5 / 2] [0, 1, 2, 3] = Inr [1, 1, 3]"
    by (simp add: digitize_def)
  show "arr_len_threshold 2 = 1" by (simp add: arr_len_threshold_def)
  show "bins_data (map Fin [1 / 2, 3 / 5, 5 / 2]) [1, 1, 3] 1 NaN [0, 1, 2, 3] =
     Inr [Data [Fin (1 / 2), Fin (3 / 5)], Fail NaN, Fail NaN]"
    by (simp add: bins_data_def mask_select_def upt_conv_Cons)
  show "bins_data [Fin 1, Fin 2, Fin 3] [1, 1, 3] 1 NaN [0, 1, 2, 3] =
     Inr [Data [Fin 1, Fin 2], Fail NaN, Fail NaN]"
    by (simp add: bins_data_def mask_select_def upt_conv_Cons)
  show "x_stat_of ''average'' Nanmean 1 NaN [0, 1, 2, 3]
       [Data [Fin (1 / 2), Fin (3 / 5)], Fail NaN, Fail NaN] = Inl TypeError"
    by (simp add: x_stat_of_def stat_average_def)
  show "stat_average Nanmean 1 NaN [Data [Fin 1, Fin 2], Fail NaN, Fail NaN] = Inl TypeError"
    by (simp add: stat_average_def)
  show "y_std_err_of 1 NaN [Data [Fin 1, Fin 2], Fail NaN, Fail NaN] = Inl TypeError"
    by (simp add: y_std_err_of_def)
qed

subsection \<open>Removal of the failed bins\<close>

text \<open>
  Claim C3 does not hold of the code. At \<open>x = [-0.5, 0.5, 1.5]\<close>, \<open>y = [1, 2, 3]\<close>,
  \<open>base = 1\<close>, \<open>arr_len = 1\<close>, \<open>bin_statval = 'left'\<close> and \<open>failval = 0\<close> the function
  raises \<open>NameError\<close> and returns no array. The statements of its body, run in their order on
  \<open>x\<close> in the place of \<open>x1\<close>, give three bins with left edges \<open>-1, 0, 1\<close>; the removal
  step drops the bin whose left edge equals \<open>failval\<close> from \<open>x_stat\<close>, \<open>y_stat\<close>,
  \<open>y_std_err\<close> and the two arrays of raw bins, which keep two bins each, but it leaves
  \<open>y_std\<close> as it was: the generator over all three bins.
\<close>

theorem removal_skips_y_std:
  "Stats_one_arr ''stats_funcs.py'' [- 1 / 2, 1 / 2, 3 / 2] [Fin 1, Fin 2, Fin 3] 1 1 ''n'' None
       Nanmean ''left'' (Fin 0) = Inl (NameError ''x1'') \<and>
   Bins_array_create ''stats_funcs.py'' (array1 [- 1 / 2, 1 / 2, 3 / 2]) 1 = Inr [- 1, 0, 1, 2] \<and>
   digitize [- 1 / 2, 1 / 2, 3 / 2] [- 1, 0, 1, 2] = Inr [1, 2, 3] \<and>
   arr_len_threshold 1 = 0 \<and>
   bins_data (map Fin [- 1 / 2, 1 / 2, 3 / 2]) [1, 2, 3] 0 (Fin 0) [- 1, 0, 1, 2] =
     Inr [Data [Fin (- 1 / 2)], Data [Fin (1 / 2)], Data [Fin (3 / 2)]] \<and>
   bins_data [Fin 1, Fin 2, Fin 3] [1, 2, 3] 0 (Fin 0) [- 1, 0, 1, 2] =
     Inr [Data [Fin 1], Data [Fin 2], Data [Fin 3]] \<and>
   x_stat_of ''left'' Nanmean 0 (Fin 0) [- 1, 0, 1, 2]
       [Data [Fin (- 1 / 2)], Data [Fin (1 / 2)], Data [Fin (3 / 2)]] =
     Inr [Fin (- 1), Fin 0, Fin 1] \<and>
   stat_average Nanmean 0 (Fin 0) [Data [Fin 1], Data [Fin 2], Data [Fin 3]] =
     Inr [Fin 1, Fin 2, Fin 3] \<and>
   y_std_err_of 0 (Fin 0) [Data [Fin 1], Data [Fin 2], Data [Fin 3]] = Inr [Fin 0, Fin 0, Fin 0] \<and>
   remove_failval (Fin 0)
       \<lparr>x_stat = [Fin (- 1), Fin 0, Fin 1], y_stat = [Fin 1, Fin 2, Fin 3],
        y_std = Generator [Data [Fin 1], Data [Fin 2], Data [Fin 3]],
        y_std_err = [Fin 0, Fin 0, Fin 0],
        x_bins_data = [Data [Fin (- 1 / 2)], Data [Fin (1 / 2)], Data [Fin (3 / 2)]],
        y_bins_data = [Data [Fin 1], Data [Fin 2], Data [Fin 3]]\<rparr> =
     Inr \<lparr>x_stat = [Fin (- 1), Fin 1], y_stat = [Fin 1, Fin 3],
          y_std = Generator [Data [Fin 1], Data [Fin 2], Data [Fin 3]],
          y_std_err = [Fin 0, Fin 0],
          x_bins_data = [Data [Fin (- 1 / 2)], Data [Fin (3 / 2)]],
          y_bins_data = [Data [Fin 1], Data [Fin 3]]\<rparr>"
proof (intro conjI)
  show "Stats_one_arr ''stats_funcs.py'' [- 1 / 2, 1 / 2, 3 / 2] [Fin 1, Fin 2, Fin 3] 1 1 ''n'' None
       Nanmean ''left'' (Fin 0) = Inl (NameError ''x1'')"
    by (simp add: Stats_one_arr_def load_global_x1)
  show "Bins_array_create ''stats_funcs.py'' (array1 [- 1 / 2, 1 / 2, 3 / 2]) 1 = Inr [- 1, 0, 1, 2]"
    by (simp add: Bins_array_create_def array1_def ndim_def myfloor_def myceil_def
        np_arange_def upt_conv_Cons)
  show "digitize [- 1 / 2, 1 / 2, 3 / 2] [- 1, 0, 1, 2] = Inr [1, 2, 3]"
    by (simp add: digitize_def)
  show "arr_len_threshold 1 = 0" by (simp add: arr_len_threshold_def)
  show "bins_data (map Fin [- 1 / 2, 1 / 2, 3 / 2]) [1, 2, 3] 0 (Fin 0) [- 1, 0, 1, 2] =
     Inr [Data [Fin (- 1 / 2)], Data [Fin (1 / 2)], Data [Fin (3 / 2)]]"
    by (simp add: bins_data_def mask_select_def upt_conv_Cons)
  show "bins_data [Fin 1, Fin 2, Fin 3] [1, 2, 3] 0 (Fin 0) [- 1, 0, 1, 2] =
     Inr [Data [Fin 1], Data [Fin 2], Data [Fin 3]]"
    by (simp add: bins_data_def mask_select_def upt_conv_Cons)
  show "x_stat_of ''left'' Nanmean 0 (Fin 0) [- 1, 0, 1, 2]
       [Data [Fin (- 1 / 2)], Data [Fin (1 / 2)], Data [Fin (3 / 2)]] =
     Inr [Fin (- 1), Fin 0, Fin 1]"
    by (simp add: x_stat_of_def stat_edge_def index_def upt_conv_Cons)
  show "stat_average Nanmean 0 (Fin 0) [Data [Fin 1], Data [Fin 2], Data [Fin 3]] =
     Inr [Fin 1, Fin 2, Fin 3]"
    by (simp add: stat_average_def nanmean_def mean_def)
  show "y_std_err_of 0 (Fin 0) [Data [Fin 1], Data [Fin 2], Data [Fin 3]] = Inr [Fin 0, Fin 0, Fin 0]"
    by (simp add: y_std_err_of_def nanstd_def mean_def)
  show "remove_failval (Fin 0)
       \<lparr>x_stat = [Fin (- 1), Fin 0, Fin 1], y_stat = [Fin 1, Fin 2, Fin 3],
        y_std = Generator [Data [Fin 1], Data [Fin 2], Data [Fin 3]],
        y_std_err = [Fin 0, Fin 0, Fin 0],
        x_bins_data = [Data [Fin (- 1 / 2)], Data [Fin (1 / 2)], Data [Fin (3 / 2)]],
        y_bins_data = [Data [Fin 1], Data [Fin 2], Data [Fin 3]]\<rparr> =
     Inr \<lparr>x_stat = [Fin (- 1), Fin 1], y_stat = [Fin 1, Fin 3],
          y_std = Generator [Data [Fin 1], Data [Fin 2], Data [Fin 3]],
          y_std_err = [Fin 0, Fin 0],
          x_bins_data = [Data [Fin (- 1 / 2)], Data [Fin (3 / 2)]],
          y_bins_data = [Data [Fin 1], Data [Fin 3]]\<rparr>"
    by (simp add: remove_failval_def where_ne_def take_idx_def index_def upt_conv_Cons)
qed

end
